theory Spec2Isabelle
  imports Main
begin

section \<open>The analysis handler of youtube-helper (src/app/api/analyze/route.ts)\<close>

text \<open>
  The handler receives a multipart form, writes the uploaded video to a temporary file,
  uploads it to the file store of the AI vendor, asks the generative model for a JSON
  document, parses the answer tolerantly and sanitizes it field by field.
  This theory embeds the handler: its pure parts (\<open>parseJsonResponse\<close>, the prompt, the
  \<open>safePayload\<close> object) as functions, its effects (temporary file, the two vendor calls)
  as explicit state passing over an environment that fixes what the outside world answers.
\<close>

subsection \<open>Strings\<close>

text \<open>
  A JavaScript string is a sequence of UTF-16 code units. A code unit is modelled as a
  natural number, a string as the list of its code units; \<open>js\<close> gives the code units of
  an ASCII literal of the source.
\<close>

type_synonym js_string = "nat list"

definition js :: "string \<Rightarrow> js_string" where
  "js s = map of_char s"

subsection \<open>JSON values and exceptions\<close>

text \<open>
  The values \<open>JSON.parse\<close> can return. A number is kept as the text of its literal,
  which stands for the double \<open>JSON.parse\<close> computes from it: the handler never
  inspects a numeric value, only the type of a value, and nothing below depends on which
  double a literal denotes (two literals may denote the same one, and one that is too
  large denotes \<open>Infinity\<close>). An object is the list of its own properties in
  insertion order.
\<close>

datatype json =
    JNull
  | JBool bool
  | JNum js_string
  | JStr js_string
  | JArr "json list"
  | JObj "(js_string \<times> json) list"

text \<open>
  The exceptions of the handler: \<open>SyntaxError\<close> is thrown by \<open>JSON.parse\<close>,
  \<open>TypeError\<close> by a property read on \<open>null\<close> and by a method call on a value that
  lacks the method; the others stand for a failure of the named external operation.
\<close>

datatype error =
    SyntaxError
  | TypeError
  | FormDataError
  | WriteError
  | UploadError
  | GenerateError

subsection \<open>Sanitization: the \<open>safePayload\<close> object (lines 130--135)\<close>

text \<open>
  \<open>payload.k\<close> for one of the four names the handler reads (\<open>titles\<close>,
  \<open>description\<close>, \<open>tags\<close>, \<open>thumbnails\<close>). None of them is a built-in property of
  arrays, strings, numbers or booleans, so the read yields \<open>undefined\<close> (here \<open>None\<close>)
  on every value but an object that owns the property; on \<open>null\<close> it throws a
  \<open>TypeError\<close>.
\<close>

fun getProperty :: "json \<Rightarrow> js_string \<Rightarrow> error + json option" where
  "getProperty JNull k = Inl TypeError"
| "getProperty (JObj ps) k = Inr (map_of ps k)"
| "getProperty (JBool b) k = Inr None"
| "getProperty (JNum n) k = Inr None"
| "getProperty (JStr s) k = Inr None"
| "getProperty (JArr xs) k = Inr None"

fun Array_isArray :: "json option \<Rightarrow> bool" where
  "Array_isArray (Some (JArr xs)) = True"
| "Array_isArray v = False"

fun typeof_string :: "json option \<Rightarrow> bool" where
  "typeof_string (Some (JStr s)) = True"
| "typeof_string v = False"

text \<open>\<open>v.slice(0, n)\<close> on an array; the handler calls it on arrays only.\<close>

fun slice0 :: "json option \<Rightarrow> nat \<Rightarrow> json" where
  "slice0 (Some (JArr xs)) n = JArr (take n xs)"
| "slice0 v n = JArr []"

fun string_value :: "json option \<Rightarrow> json" where
  "string_value (Some (JStr s)) = JStr s"
| "string_value v = JStr []"

text \<open>
  The object literal evaluates its four property values in order; the first property
  read that throws ends the evaluation.
\<close>

definition safePayload :: "json \<Rightarrow> error + json" where
  "safePayload payload =
     (case getProperty payload (js ''titles'') of Inl e \<Rightarrow> Inl e | Inr t \<Rightarrow>
     (case getProperty payload (js ''description'') of Inl e \<Rightarrow> Inl e | Inr d \<Rightarrow>
     (case getProperty payload (js ''tags'') of Inl e \<Rightarrow> Inl e | Inr g \<Rightarrow>
     (case getProperty payload (js ''thumbnails'') of Inl e \<Rightarrow> Inl e | Inr h \<Rightarrow>
        Inr (JObj
          [(js ''titles'', if Array_isArray t then slice0 t 5 else JArr []),
           (js ''description'', if typeof_string d then string_value d else JStr []),
           (js ''tags'', if Array_isArray g then slice0 g 30 else JArr []),
           (js ''thumbnails'', if Array_isArray h then slice0 h 3 else JArr [])])))))"

text \<open>Sanitizing the outcome of a computation: an exception propagates.\<close>

definition then_safePayload :: "error + json \<Rightarrow> error + json" where
  "then_safePayload r = (case r of Inl e \<Rightarrow> Inl e | Inr v \<Rightarrow> safePayload v)"

text \<open>
  The declared type \<open>AnalysisPayload\<close> (lines 15--20) as a predicate on values: an
  object whose \<open>titles\<close>, \<open>tags\<close> and \<open>thumbnails\<close> are arrays of strings and whose
  \<open>description\<close> is a string. TypeScript erases the type at run time, and the cast
  \<open>as AnalysisPayload\<close> checks nothing.
\<close>

fun is_string :: "json \<Rightarrow> bool" where
  "is_string (JStr s) = True"
| "is_string v = False"

fun is_string_array :: "json option \<Rightarrow> bool" where
  "is_string_array (Some (JArr xs)) = list_all is_string xs"
| "is_string_array v = False"

fun AnalysisPayload :: "json \<Rightarrow> bool" where
  "AnalysisPayload (JObj ps) =
     (is_string_array (map_of ps (js ''titles'')) \<and>
      typeof_string (map_of ps (js ''description'')) \<and>
      is_string_array (map_of ps (js ''tags'')) \<and>
      is_string_array (map_of ps (js ''thumbnails'')))"
| "AnalysisPayload v = False"

subsection \<open>\<open>JSON.parse\<close>\<close>

text \<open>
  \<open>JSON.parse\<close> is a built-in of the language; it is modelled after the JSON grammar
  of ECMA-404 in two passes. The first pass cuts the text into tokens with an
  automaton that reads one code unit at a time; the second pass builds the value from
  the tokens with a stack of the arrays and objects that are still open. Any text the
  grammar rejects is a \<open>SyntaxError\<close>.
\<close>

datatype token =
    TLBrace | TRBrace | TLBracket | TRBracket | TColon | TComma
  | TString js_string | TNumber js_string | TTrue | TFalse | TNull

text \<open>
  The states of a number literal
  \<open>-? (0 | [1-9][0-9]*) (. [0-9]+)? ([eE] [+-]? [0-9]+)?\<close>.
\<close>

datatype number_state =
    NMinus | NZero | NInt | NDot | NFrac | NExp | NExpSign | NExpDigits

datatype lex_state =
    Idle
  | InString js_string
  | InEscape js_string
  | InUnicode js_string "nat list"
  | InLiteral js_string token
  | InNumber number_state js_string

definition is_ws :: "nat \<Rightarrow> bool" where
  "is_ws c = (c = 9 \<or> c = 10 \<or> c = 13 \<or> c = 32)"

definition is_digit :: "nat \<Rightarrow> bool" where
  "is_digit c = (48 \<le> c \<and> c \<le> 57)"

definition hex_value :: "nat \<Rightarrow> nat option" where
  "hex_value c =
     (if 48 \<le> c \<and> c \<le> 57 then Some (c - 48)
      else if 97 \<le> c \<and> c \<le> 102 then Some (c - 87)
      else if 65 \<le> c \<and> c \<le> 70 then Some (c - 55)
      else None)"

text \<open>The code unit an escape \<open>\c\<close> stands for (\<open>\u\<close> is handled apart).\<close>

definition unescape :: "nat \<Rightarrow> nat option" where
  "unescape c =
     (if c = 34 \<or> c = 92 \<or> c = 47 then Some c
      else if c = 98 then Some 8
      else if c = 102 then Some 12
      else if c = 110 then Some 10
      else if c = 114 then Some 13
      else if c = 116 then Some 9
      else None)"

fun number_step :: "number_state \<Rightarrow> nat \<Rightarrow> number_state option" where
  "number_step NMinus c =
     (if c = 48 then Some NZero else if is_digit c then Some NInt else None)"
| "number_step NZero c =
     (if c = 46 then Some NDot else if c = 101 \<or> c = 69 then Some NExp else None)"
| "number_step NInt c =
     (if is_digit c then Some NInt else if c = 46 then Some NDot
      else if c = 101 \<or> c = 69 then Some NExp else None)"
| "number_step NDot c = (if is_digit c then Some NFrac else None)"
| "number_step NFrac c =
     (if is_digit c then Some NFrac else if c = 101 \<or> c = 69 then Some NExp else None)"
| "number_step NExp c =
     (if c = 43 \<or> c = 45 then Some NExpSign
      else if is_digit c then Some NExpDigits else None)"
| "number_step NExpSign c = (if is_digit c then Some NExpDigits else None)"
| "number_step NExpDigits c = (if is_digit c then Some NExpDigits else None)"

fun number_complete :: "number_state \<Rightarrow> bool" where
  "number_complete NZero = True"
| "number_complete NInt = True"
| "number_complete NFrac = True"
| "number_complete NExpDigits = True"
| "number_complete ns = False"

text \<open>A code unit read between tokens: the state it leads to and the tokens it ends.\<close>

definition idle :: "nat \<Rightarrow> (lex_state \<times> token list) option" where
  "idle c =
     (if is_ws c then Some (Idle, [])
      else if c = 123 then Some (Idle, [TLBrace])
      else if c = 125 then Some (Idle, [TRBrace])
      else if c = 91 then Some (Idle, [TLBracket])
      else if c = 93 then Some (Idle, [TRBracket])
      else if c = 58 then Some (Idle, [TColon])
      else if c = 44 then Some (Idle, [TComma])
      else if c = 34 then Some (InString [], [])
      else if c = 45 then Some (InNumber NMinus [c], [])
      else if c = 48 then Some (InNumber NZero [c], [])
      else if is_digit c then Some (InNumber NInt [c], [])
      else if c = 116 then Some (InLiteral (js ''rue'') TTrue, [])
      else if c = 102 then Some (InLiteral (js ''alse'') TFalse, [])
      else if c = 110 then Some (InLiteral (js ''ull'') TNull, [])
      else None)"

fun lex_step :: "lex_state \<Rightarrow> nat \<Rightarrow> (lex_state \<times> token list) option" where
  "lex_step Idle c = idle c"
| "lex_step (InString acc) c =
     (if c = 34 then Some (Idle, [TString acc])
      else if c = 92 then Some (InEscape acc, [])
      else if c < 32 then None
      else Some (InString (acc @ [c]), []))"
| "lex_step (InEscape acc) c =
     (if c = 117 then Some (InUnicode acc [], [])
      else (case unescape c of
              None \<Rightarrow> None
            | Some d \<Rightarrow> Some (InString (acc @ [d]), [])))"
| "lex_step (InUnicode acc hs) c =
     (case hex_value c of
        None \<Rightarrow> None
      | Some h \<Rightarrow>
          if length hs = 3
          then Some (InString (acc @ [foldl (\<lambda>a b. 16 * a + b) 0 (hs @ [h])]), [])
          else Some (InUnicode acc (hs @ [h]), []))"
| "lex_step (InLiteral [] tok) c = None"
| "lex_step (InLiteral (r # rs) tok) c =
     (if c = r then (if rs = [] then Some (Idle, [tok]) else Some (InLiteral rs tok, []))
      else None)"
| "lex_step (InNumber ns lit) c =
     (case number_step ns c of
        Some ns' \<Rightarrow> Some (InNumber ns' (lit @ [c]), [])
      | None \<Rightarrow>
          if number_complete ns
          then (case idle c of
                  None \<Rightarrow> None
                | Some (st, toks) \<Rightarrow> Some (st, TNumber lit # toks))
          else None)"

text \<open>At the end of the text a complete number is a token; any other open token is an error.\<close>

fun lex_end :: "lex_state \<Rightarrow> token list option" where
  "lex_end Idle = Some []"
| "lex_end (InNumber ns lit) = (if number_complete ns then Some [TNumber lit] else None)"
| "lex_end st = None"

fun lex_run :: "lex_state \<Rightarrow> js_string \<Rightarrow> token list option" where
  "lex_run st [] = lex_end st"
| "lex_run st (c # cs) =
     (case lex_step st c of
        None \<Rightarrow> None
      | Some (st', toks) \<Rightarrow>
          (case lex_run st' cs of None \<Rightarrow> None | Some rest \<Rightarrow> Some (toks @ rest)))"

definition tokenize :: "js_string \<Rightarrow> token list option" where
  "tokenize text = lex_run Idle text"

text \<open>
  Defining a property of the object under construction: a repeated key keeps its place
  and takes the later value.
\<close>

fun CreateDataProperty ::
  "(js_string \<times> json) list \<Rightarrow> js_string \<Rightarrow> json \<Rightarrow> (js_string \<times> json) list" where
  "CreateDataProperty [] k v = [(k, v)]"
| "CreateDataProperty ((k', v') # ps) k v =
     (if k' = k then (k, v) # ps else (k', v') # CreateDataProperty ps k v)"

text \<open>
  The containers that are still open: an array with the elements read so far, an object
  with the properties read so far and the key whose value is being read.
\<close>

datatype frame =
    InArray "json list"
  | InObject "(js_string \<times> json) list" js_string

datatype parse_state =
    WantValue
  | WantValueOrClose
  | WantKeyOrClose
  | WantKey "(js_string \<times> json) list"
  | WantColon "(js_string \<times> json) list" js_string
  | HaveValue json

fun begin_value :: "token \<Rightarrow> frame list \<Rightarrow> (parse_state \<times> frame list) option" where
  "begin_value TNull st = Some (HaveValue JNull, st)"
| "begin_value TTrue st = Some (HaveValue (JBool True), st)"
| "begin_value TFalse st = Some (HaveValue (JBool False), st)"
| "begin_value (TNumber n) st = Some (HaveValue (JNum n), st)"
| "begin_value (TString s) st = Some (HaveValue (JStr s), st)"
| "begin_value TLBracket st = Some (WantValueOrClose, st)"
| "begin_value TLBrace st = Some (WantKeyOrClose, st)"
| "begin_value tok st = None"

fun parse_step ::
  "parse_state \<Rightarrow> frame list \<Rightarrow> token \<Rightarrow> (parse_state \<times> frame list) option" where
  "parse_step WantValue st tok = begin_value tok st"
| "parse_step WantValueOrClose st tok =
     (if tok = TRBracket then Some (HaveValue (JArr []), st)
      else begin_value tok (InArray [] # st))"
| "parse_step WantKeyOrClose st tok =
     (case tok of
        TRBrace \<Rightarrow> Some (HaveValue (JObj []), st)
      | TString k \<Rightarrow> Some (WantColon [] k, st)
      | _ \<Rightarrow> None)"
| "parse_step (WantKey ps) st tok =
     (case tok of TString k \<Rightarrow> Some (WantColon ps k, st) | _ \<Rightarrow> None)"
| "parse_step (WantColon ps k) st tok =
     (case tok of TColon \<Rightarrow> Some (WantValue, InObject ps k # st) | _ \<Rightarrow> None)"
| "parse_step (HaveValue v) [] tok = None"
| "parse_step (HaveValue v) (InArray xs # st) tok =
     (case tok of
        TComma \<Rightarrow> Some (WantValue, InArray (xs @ [v]) # st)
      | TRBracket \<Rightarrow> Some (HaveValue (JArr (xs @ [v])), st)
      | _ \<Rightarrow> None)"
| "parse_step (HaveValue v) (InObject ps k # st) tok =
     (case tok of
        TComma \<Rightarrow> Some (WantKey (CreateDataProperty ps k v), st)
      | TRBrace \<Rightarrow> Some (HaveValue (JObj (CreateDataProperty ps k v)), st)
      | _ \<Rightarrow> None)"

fun parse_run :: "parse_state \<Rightarrow> frame list \<Rightarrow> token list \<Rightarrow> json option" where
  "parse_run (HaveValue v) [] [] = Some v"
| "parse_run s st [] = None"
| "parse_run s st (tok # toks) =
     (case parse_step s st tok of
        None \<Rightarrow> None
      | Some (s', st') \<Rightarrow> parse_run s' st' toks)"

definition JSON_parse :: "js_string \<Rightarrow> error + json" where
  "JSON_parse text =
     (case tokenize text of
        None \<Rightarrow> Inl SyntaxError
      | Some toks \<Rightarrow>
          (case parse_run WantValue [] toks of
             None \<Rightarrow> Inl SyntaxError
           | Some v \<Rightarrow> Inr v))"

subsection \<open>\<open>parseJsonResponse\<close> (lines 44--54)\<close>

text \<open>
  What \<open>[\s\S]*\}\<close> matches at the start of a text: the star is greedy and takes
  every code unit, line terminators too, then gives back until a \<open>}\<close> follows; so the
  match is the longest prefix that ends in \<open>}\<close>.
\<close>

fun greedy_to_close :: "js_string \<Rightarrow> js_string option" where
  "greedy_to_close [] = None"
| "greedy_to_close (c # cs) =
     (case greedy_to_close cs of
        Some m \<Rightarrow> Some (c # m)
      | None \<Rightarrow> if c = 125 then Some [c] else None)"

text \<open>
  \<open>text.match(/\{[\s\S]*\}/)\<close>: the start positions are tried from the left, and the
  first position where the pattern matches gives the result (\<open>match[0]\<close>); \<open>None\<close> is
  the \<open>null\<close> of no match.
\<close>

fun match_braces :: "js_string \<Rightarrow> js_string option" where
  "match_braces [] = None"
| "match_braces (c # cs) =
     (if c = 123
      then (case greedy_to_close cs of
              Some m \<Rightarrow> Some (c # m)
            | None \<Rightarrow> match_braces cs)
      else match_braces cs)"

definition parseJsonResponse :: "js_string \<Rightarrow> error + json" where
  "parseJsonResponse text =
     (case JSON_parse text of
        Inr v \<Rightarrow> Inr v
      | Inl error \<Rightarrow>
          (case match_braces text of
             Some m \<Rightarrow> JSON_parse m
           | None \<Rightarrow> Inl error))"

subsection \<open>The request: form data and files\<close>

text \<open>
  A \<open>File\<close> of the form: its name, its MIME type and its bytes. An entry of the form is
  a string or a file; \<open>formData.get\<close> gives the first entry of a name (\<open>None\<close> is
  \<open>null\<close>), \<open>formData.getAll\<close> all of them in order.
\<close>

record File =
  file_name :: js_string
  file_type :: js_string
  file_bytes :: "nat list"

datatype form_value = FormString js_string | FormFile File

type_synonym form_data = "(js_string \<times> form_value) list"

definition formData_get :: "form_data \<Rightarrow> js_string \<Rightarrow> form_value option" where
  "formData_get fd k = map_of fd k"

definition formData_getAll :: "form_data \<Rightarrow> js_string \<Rightarrow> form_value list" where
  "formData_getAll fd k = map snd (filter (\<lambda>entry. fst entry = k) fd)"

text \<open>\<open>String(v ?? "")\<close> on the entry a \<open>get\<close> returned.\<close>

fun String_or_empty :: "form_value option \<Rightarrow> js_string" where
  "String_or_empty None = []"
| "String_or_empty (Some (FormString s)) = s"
| "String_or_empty (Some (FormFile f)) = js ''[object File]''"

text \<open>The white space and line terminators that \<open>trim\<close> removes at both ends.\<close>

definition is_trim_space :: "nat \<Rightarrow> bool" where
  "is_trim_space c =
     (c = 9 \<or> c = 10 \<or> c = 11 \<or> c = 12 \<or> c = 13 \<or> c = 32 \<or> c = 160 \<or> c = 5760 \<or>
      (8192 \<le> c \<and> c \<le> 8202) \<or> c = 8232 \<or> c = 8233 \<or> c = 8239 \<or> c = 8287 \<or>
      c = 12288 \<or> c = 65279)"

definition trim :: "js_string \<Rightarrow> js_string" where
  "trim s = rev (dropWhile is_trim_space (rev (dropWhile is_trim_space s)))"

text \<open>\<open>Boolean(v)\<close> on a form entry: only the empty string is falsy.\<close>

fun Boolean :: "form_value \<Rightarrow> bool" where
  "Boolean (FormString s) = (s \<noteq> [])"
| "Boolean (FormFile f) = True"

subsection \<open>The outside world\<close>

text \<open>
  What the handler does to the outside world, in the order it does it: writing the
  temporary file (\<open>createWriteStream\<close> and \<open>pipeline\<close>), the upload to the file
  store (path, MIME type, display name), the deletion of the temporary file, and the
  call of the generative model (prompt, URI and MIME type of the uploaded video, inline
  images; the generation configuration is constant).
\<close>

record inline_part =
  data_base64_of :: "nat list"
  mimeType :: js_string

datatype effect =
    WriteFile js_string "nat list"
  | UploadFile js_string js_string js_string
  | Unlink js_string
  | GenerateContent js_string js_string js_string "inline_part list"

text \<open>
  How writing the temporary file ends: with the whole file written, or with a failure
  that may leave a partly written file behind (\<open>WriteFailed True\<close>).
\<close>

datatype write_outcome = Written | WriteFailed bool

text \<open>
  What the outside world answers during one request: the configured credential, the
  parsed form of the request (or the exception of \<open>request.formData()\<close>), the
  identifier \<open>crypto.randomUUID()\<close> returns, how the write ends, what the upload
  returns (URI and MIME type of the stored file) or throws, whether \<open>unlink\<close>
  succeeds, and the text of the model's response or the exception of the call.
\<close>

record env =
  GEMINI_API_KEY :: "js_string option"
  formData :: "error + form_data"
  randomUUID :: js_string
  pipeline_result :: write_outcome
  uploadFile_result :: "error + (js_string \<times> js_string)"
  unlink_succeeds :: bool
  generateContent_result :: "error + js_string"

text \<open>
  The outcome of the handler: a response, or an exception that leaves \<open>POST\<close>
  uncaught; the framework that hosts the handler answers an uncaught exception with
  its generic server-error response. A response is the status and the value the handler
  hands to \<open>NextResponse.json\<close>; turning that value into the text the client reads
  (\<open>JSON.stringify\<close>) is the framework's work and is not part of this model.
\<close>

datatype outcome = Response nat json | Threw error

text \<open>The status the client sees: the framework answers an uncaught exception with 500.\<close>

fun status_seen :: "outcome \<Rightarrow> nat" where
  "status_seen (Response status body) = status"
| "status_seen (Threw err) = 500"

subsection \<open>\<open>toTempFile\<close> (lines 24--32) and \<open>fileToInlinePart\<close> (lines 34--42)\<close>

text \<open>
  \<open>file.name.replace(/[^\w.-]+/g, "_")\<close>: every maximal run of code units other than
  letters, digits, \<open>_\<close>, \<open>.\<close> and \<open>-\<close> becomes one \<open>_\<close>. The flag tells that the
  run being read has been replaced already.
\<close>

definition is_safe_char :: "nat \<Rightarrow> bool" where
  "is_safe_char c =
     ((65 \<le> c \<and> c \<le> 90) \<or> (97 \<le> c \<and> c \<le> 122) \<or> (48 \<le> c \<and> c \<le> 57) \<or>
      c = 95 \<or> c = 46 \<or> c = 45)"

fun replace_unsafe :: "bool \<Rightarrow> js_string \<Rightarrow> js_string" where
  "replace_unsafe in_run [] = []"
| "replace_unsafe in_run (c # cs) =
     (if is_safe_char c then c # replace_unsafe False cs
      else if in_run then replace_unsafe True cs
      else 95 # replace_unsafe True cs)"

text \<open>
  \<open>path.join("/tmp", ...)\<close>: the second segment starts with \<open>yt-helper-\<close> and holds
  no separator (the identifier is a UUID, the name has been made safe), so the join is
  the concatenation with one separator.
\<close>

definition tempPath_of :: "js_string \<Rightarrow> File \<Rightarrow> js_string" where
  "tempPath_of uuid f =
     (let safeName = replace_unsafe False (file_name f)
      in js ''/tmp'' @ js ''/'' @ js ''yt-helper-'' @ uuid @ js ''-'' @ safeName)"

text \<open>
  The files of the scratch directory are a set of paths. \<open>toTempFile\<close> returns the
  path once the file is written, or throws.
\<close>

definition toTempFile ::
  "env \<Rightarrow> File \<Rightarrow> js_string set \<Rightarrow> (error + js_string) \<times> effect list \<times> js_string set" where
  "toTempFile e f files =
     (let tempPath = tempPath_of (randomUUID e) f
      in case pipeline_result e of
           Written \<Rightarrow>
             (Inr tempPath, [WriteFile tempPath (file_bytes f)], insert tempPath files)
         | WriteFailed left \<Rightarrow>
             (Inl WriteError, [WriteFile tempPath (file_bytes f)],
              if left then insert tempPath files else files))"

text \<open>
  \<open>fileToInlinePart\<close> is called on every truthy \<open>images\<close> entry; on an entry that is a
  string, \<open>file.arrayBuffer\<close> is not a function and the call throws a \<open>TypeError\<close>.
\<close>

fun fileToInlinePart :: "form_value \<Rightarrow> error + inline_part" where
  "fileToInlinePart (FormFile f) =
     Inr \<lparr>data_base64_of = file_bytes f,
          mimeType = (if file_type f = [] then js ''image/jpeg'' else file_type f)\<rparr>"
| "fileToInlinePart (FormString s) = Inl TypeError"

fun Promise_all :: "(error + 'a) list \<Rightarrow> error + 'a list" where
  "Promise_all [] = Inr []"
| "Promise_all (Inl e # ps) = Inl e"
| "Promise_all (Inr x # ps) =
     (case Promise_all ps of Inl e \<Rightarrow> Inl e | Inr xs \<Rightarrow> Inr (x # xs))"

subsection \<open>The prompt (lines 93--103)\<close>

definition prompt_head :: js_string where
  "prompt_head =
     [10] @ js ''You are a YouTube growth strategist. Analyze the video content and return a JSON object with:''
     @ [10] @ js ''- titles: 5 high-CTR YouTube title suggestions.''
     @ [10] @ js ''- description: an SEO-optimized description with timestamps (use mm:ss format and realistic chapter labels).''
     @ [10] @ js ''- tags: 30 relevant tags, lower case, no hashtags.''
     @ [10] @ js ''- thumbnails: 3 detailed thumbnail concept descriptions (text only, no image generation).''
     @ [10]
     @ [10] @ js ''Additional context from creator: ''"

definition prompt_tail :: js_string where
  "prompt_tail =
     [10]
     @ [10] @ js ''Return only valid JSON with keys: titles, description, tags, thumbnails.''
     @ [10] @ js ''  ''"

text \<open>\<open>context || "None provided."\<close> between the two parts of the template, then \<open>trim\<close>.\<close>

definition prompt :: "js_string \<Rightarrow> js_string" where
  "prompt context =
     trim (prompt_head @ (if context = [] then js ''None provided.'' else context)
           @ prompt_tail)"

text \<open>Line 67: the context the prompt is built from.\<close>

definition context_of :: "form_data \<Rightarrow> js_string" where
  "context_of fd = trim (String_or_empty (formData_get fd (js ''context'')))"

subsection \<open>The handler \<open>POST\<close> (lines 56--138)\<close>

text \<open>
  Lines 87--137: the inline images, the prompt, the call of the model, parsing and
  sanitization of its answer.
\<close>

definition generate ::
  "env \<Rightarrow> js_string \<Rightarrow> form_value list \<Rightarrow> js_string \<times> js_string \<Rightarrow> outcome \<times> effect list" where
  "generate e context imageFiles upload =
     (case Promise_all (map fileToInlinePart imageFiles) of
        Inl err \<Rightarrow> (Threw err, [])
      | Inr inlineImages \<Rightarrow>
          (let call = GenerateContent (prompt context) (fst upload) (snd upload) inlineImages
           in case generateContent_result e of
                Inl err \<Rightarrow> (Threw err, [call])
              | Inr text \<Rightarrow>
                  (case parseJsonResponse text of
                     Inl err \<Rightarrow> (Threw err, [call])
                   | Inr payload \<Rightarrow>
                       (case safePayload payload of
                          Inl err \<Rightarrow> (Threw err, [call])
                        | Inr body \<Rightarrow> (Response 200 body, [call])))))"

text \<open>
  Lines 74--85: the temporary file, the upload inside \<open>try\<close>, and in \<open>finally\<close> the
  deletion, whose failure \<open>.catch(() => null)\<close> discards. A failed \<open>unlink\<close> leaves
  the file where it is.
\<close>

definition upload_video ::
  "env \<Rightarrow> File \<Rightarrow> js_string set \<Rightarrow>
   (error + js_string \<times> js_string) \<times> effect list \<times> js_string set" where
  "upload_video e videoFile files =
     (case toTempFile e videoFile files of
        (Inl err, written, files') \<Rightarrow> (Inl err, written, files')
      | (Inr tempPath, written, files') \<Rightarrow>
          (uploadFile_result e,
           written @
           [UploadFile tempPath
              (if file_type videoFile = [] then js ''video/mp4'' else file_type videoFile)
              (if file_name videoFile = [] then js ''youtube-helper-video''
               else file_name videoFile),
            Unlink tempPath],
           if unlink_succeeds e then files' - {tempPath} else files'))"

definition POST :: "env \<Rightarrow> js_string set \<Rightarrow> outcome \<times> effect list \<times> js_string set" where
  "POST e files =
     (case GEMINI_API_KEY e of
        None \<Rightarrow>
          (Response 500
             (JObj [(js ''error'', JStr (js ''Missing GEMINI_API_KEY environment variable.''))]),
           [], files)
      | Some apiKey \<Rightarrow>
          if apiKey = [] then
            (Response 500
               (JObj [(js ''error'', JStr (js ''Missing GEMINI_API_KEY environment variable.''))]),
             [], files)
          else
            (case formData e of
               Inl err \<Rightarrow> (Threw err, [], files)
             | Inr fd \<Rightarrow>
                 (let videoFile = formData_get fd (js ''video'');
                      context = context_of fd;
                      imageFiles = filter Boolean (formData_getAll fd (js ''images''))
                  in case videoFile of
                       Some (FormFile video) \<Rightarrow>
                         (case upload_video e video files of
                            (Inl err, effects, files') \<Rightarrow> (Threw err, effects, files')
                          | (Inr upload, effects, files') \<Rightarrow>
                              (case generate e context imageFiles upload of
                                 (result, called) \<Rightarrow> (result, effects @ called, files')))
                     | _ \<Rightarrow>
                         (Response 400
                            (JObj [(js ''error'', JStr (js ''Video file is required.''))]),
                          [], files))))"

subsection \<open>A sample request\<close>

text \<open>
  One request and one run of the outside world, on which the theorems below are
  instantiated: a video, a context with blanks around it, a credential, and a model
  that wraps its JSON answer in prose.
\<close>

definition sample_video :: File where
  "sample_video =
     \<lparr>file_name = js ''my clip.mp4'', file_type = js ''video/mp4'', file_bytes = [0, 1, 2]\<rparr>"

definition sample_form :: form_data where
  "sample_form =
     [(js ''video'', FormFile sample_video), (js ''context'', FormString (js '' cooking ''))]"

definition sample_text :: js_string where
  \<open>sample_text =
     js ''Here is the result: {"titles":["A"],"description":"d","tags":[],"thumbnails":[]} Thanks!''\<close>

definition sample_env :: env where
  "sample_env =
     \<lparr>GEMINI_API_KEY = Some (js ''secret''),
      formData = Inr sample_form,
      randomUUID = js ''0a1b'',
      pipeline_result = Written,
      uploadFile_result = Inr (js ''https://files/1'', js ''video/mp4''),
      unlink_succeeds = True,
      generateContent_result = Inr sample_text\<rparr>"

subsection \<open>Properties of the sanitization\<close>

lemma js_keys_distinct:
  "js ''titles'' \<noteq> js ''description''" "js ''titles'' \<noteq> js ''tags''"
  "js ''titles'' \<noteq> js ''thumbnails''" "js ''description'' \<noteq> js ''tags''"
  "js ''description'' \<noteq> js ''thumbnails''" "js ''tags'' \<noteq> js ''thumbnails''"
  by (simp_all add: js_def)

lemma getProperty_not_null:
  "payload \<noteq> JNull \<Longrightarrow> \<exists>v. getProperty payload k = Inr v"
  by (cases payload) simp_all

lemma safePayload_not_null:
  assumes "payload \<noteq> JNull"
  shows "\<exists>t d g h.
    getProperty payload (js ''titles'') = Inr t \<and>
    getProperty payload (js ''description'') = Inr d \<and>
    getProperty payload (js ''tags'') = Inr g \<and>
    getProperty payload (js ''thumbnails'') = Inr h \<and>
    safePayload payload = Inr (JObj
      [(js ''titles'', if Array_isArray t then slice0 t 5 else JArr []),
       (js ''description'', if typeof_string d then string_value d else JStr []),
       (js ''tags'', if Array_isArray g then slice0 g 30 else JArr []),
       (js ''thumbnails'', if Array_isArray h then slice0 h 3 else JArr [])])"
proof -
  obtain t where t: "getProperty payload (js ''titles'') = Inr t"
    using getProperty_not_null [OF assms] by blast
  obtain d where d: "getProperty payload (js ''description'') = Inr d"
    using getProperty_not_null [OF assms] by blast
  obtain g where g: "getProperty payload (js ''tags'') = Inr g"
    using getProperty_not_null [OF assms] by blast
  obtain h where h: "getProperty payload (js ''thumbnails'') = Inr h"
    using getProperty_not_null [OF assms] by blast
  show ?thesis
    using t d g h by (simp add: safePayload_def)
qed

lemma safePayload_null: "safePayload JNull = Inl TypeError"
  by (simp add: safePayload_def)

lemma Array_isArray_cases:
  "Array_isArray v \<Longrightarrow> \<exists>xs. v = Some (JArr xs)"
  by (cases v rule: Array_isArray.cases) simp_all

lemma typeof_string_cases:
  "typeof_string v \<Longrightarrow> \<exists>s. v = Some (JStr s)"
  by (cases v rule: typeof_string.cases) simp_all

text \<open>
  Claim C2. When \<open>titles\<close>, \<open>tags\<close> and \<open>thumbnails\<close> of the parsed payload are arrays
  and \<open>description\<close> is a string, sanitization is the identity up to truncation: each
  array is cut to its first 5, 30 and 3 elements in the original order (and is unchanged
  when it is no longer than that), and the description is returned as it is.
\<close>

theorem safePayload_identity_up_to_truncation:
  assumes "getProperty payload (js ''titles'') = Inr (Some (JArr ts))"
    and "getProperty payload (js ''description'') = Inr (Some (JStr d))"
    and "getProperty payload (js ''tags'') = Inr (Some (JArr gs))"
    and "getProperty payload (js ''thumbnails'') = Inr (Some (JArr hs))"
  shows "safePayload payload = Inr (JObj
      [(js ''titles'', JArr (take 5 ts)),
       (js ''description'', JStr d),
       (js ''tags'', JArr (take 30 gs)),
       (js ''thumbnails'', JArr (take 3 hs))])
    \<and> (length ts \<le> 5 \<longrightarrow> take 5 ts = ts) \<and> (5 < length ts \<longrightarrow> length (take 5 ts) = 5)
    \<and> (length gs \<le> 30 \<longrightarrow> take 30 gs = gs) \<and> (30 < length gs \<longrightarrow> length (take 30 gs) = 30)
    \<and> (length hs \<le> 3 \<longrightarrow> take 3 hs = hs) \<and> (3 < length hs \<longrightarrow> length (take 3 hs) = 3)
    \<and> (\<exists>ts'. ts = take 5 ts @ ts') \<and> (\<exists>gs'. gs = take 30 gs @ gs')
    \<and> (\<exists>hs'. hs = take 3 hs @ hs')"
proof -
  have "safePayload payload = Inr (JObj
      [(js ''titles'', JArr (take 5 ts)),
       (js ''description'', JStr d),
       (js ''tags'', JArr (take 30 gs)),
       (js ''thumbnails'', JArr (take 3 hs))])"
    using assms by (simp add: safePayload_def)
  moreover have "\<exists>ts'. ts = take 5 ts @ ts'"
    by (metis append_take_drop_id)
  moreover have "\<exists>gs'. gs = take 30 gs @ gs'"
    by (metis append_take_drop_id)
  moreover have "\<exists>hs'. hs = take 3 hs @ hs'"
    by (metis append_take_drop_id)
  ultimately show ?thesis by simp
qed

theorem safePayload_identity_up_to_truncation_witness:
  "safePayload (JObj
      [(js ''titles'', JArr (map (\<lambda>n. JStr [n]) [0..<8])),
       (js ''description'', JStr (js ''d'')),
       (js ''tags'', JArr (map (\<lambda>n. JStr [n]) [0..<40])),
       (js ''thumbnails'', JArr (map (\<lambda>n. JStr [n]) [0..<5]))])
   = Inr (JObj
      [(js ''titles'', JArr (map (\<lambda>n. JStr [n]) [0..<5])),
       (js ''description'', JStr (js ''d'')),
       (js ''tags'', JArr (map (\<lambda>n. JStr [n]) [0..<30])),
       (js ''thumbnails'', JArr (map (\<lambda>n. JStr [n]) [0..<3]))])"
  using safePayload_identity_up_to_truncation
    [of "JObj
      [(js ''titles'', JArr (map (\<lambda>n. JStr [n]) [0..<8])),
       (js ''description'', JStr (js ''d'')),
       (js ''tags'', JArr (map (\<lambda>n. JStr [n]) [0..<40])),
       (js ''thumbnails'', JArr (map (\<lambda>n. JStr [n]) [0..<5]))]"
      "map (\<lambda>n. JStr [n]) [0..<8]" "js ''d''"
      "map (\<lambda>n. JStr [n]) [0..<40]" "map (\<lambda>n. JStr [n]) [0..<5]"]
  by (simp add: js_def take_map del: upt_Suc)

lemma sanitized_array:
  "\<exists>xs. (if Array_isArray v then slice0 v n else JArr []) = JArr xs \<and> length xs \<le> n \<and>
     (\<forall>x \<in> set xs. \<exists>ys. v = Some (JArr ys) \<and> x \<in> set ys)"
proof (cases "Array_isArray v")
  case True
  then obtain ys where "v = Some (JArr ys)"
    using Array_isArray_cases by blast
  then show ?thesis
    by (auto dest: in_set_takeD)
next
  case False
  then show ?thesis by simp
qed

lemma sanitized_string:
  "\<exists>s. (if typeof_string v then string_value v else JStr []) = JStr s"
proof (cases "typeof_string v")
  case True
  then obtain s where "v = Some (JStr s)"
    using typeof_string_cases by blast
  then show ?thesis by simp
next
  case False
  then show ?thesis by simp
qed

lemma safePayload_shape:
  assumes "payload \<noteq> JNull"
  shows "\<exists>ts d gs hs.
    safePayload payload = Inr (JObj
      [(js ''titles'', JArr ts), (js ''description'', JStr d),
       (js ''tags'', JArr gs), (js ''thumbnails'', JArr hs)]) \<and>
    length ts \<le> 5 \<and> length gs \<le> 30 \<and> length hs \<le> 3 \<and>
    (\<forall>x \<in> set ts. \<exists>ys. getProperty payload (js ''titles'') = Inr (Some (JArr ys)) \<and> x \<in> set ys) \<and>
    (\<forall>x \<in> set gs. \<exists>ys. getProperty payload (js ''tags'') = Inr (Some (JArr ys)) \<and> x \<in> set ys) \<and>
    (\<forall>x \<in> set hs. \<exists>ys. getProperty payload (js ''thumbnails'') = Inr (Some (JArr ys)) \<and> x \<in> set ys)"
proof -
  obtain t d g h where
    t: "getProperty payload (js ''titles'') = Inr t" and
    g: "getProperty payload (js ''tags'') = Inr g" and
    h: "getProperty payload (js ''thumbnails'') = Inr h" and
    eq: "safePayload payload = Inr (JObj
      [(js ''titles'', if Array_isArray t then slice0 t 5 else JArr []),
       (js ''description'', if typeof_string d then string_value d else JStr []),
       (js ''tags'', if Array_isArray g then slice0 g 30 else JArr []),
       (js ''thumbnails'', if Array_isArray h then slice0 h 3 else JArr [])])"
    using safePayload_not_null [OF assms] by blast
  obtain ts where ts: "(if Array_isArray t then slice0 t 5 else JArr []) = JArr ts"
    "length ts \<le> 5" "\<forall>x \<in> set ts. \<exists>ys. t = Some (JArr ys) \<and> x \<in> set ys"
    using sanitized_array [of t 5] by blast
  obtain gs where gs: "(if Array_isArray g then slice0 g 30 else JArr []) = JArr gs"
    "length gs \<le> 30" "\<forall>x \<in> set gs. \<exists>ys. g = Some (JArr ys) \<and> x \<in> set ys"
    using sanitized_array [of g 30] by blast
  obtain hs where hs: "(if Array_isArray h then slice0 h 3 else JArr []) = JArr hs"
    "length hs \<le> 3" "\<forall>x \<in> set hs. \<exists>ys. h = Some (JArr ys) \<and> x \<in> set ys"
    using sanitized_array [of h 3] by blast
  obtain s where s: "(if typeof_string d then string_value d else JStr []) = JStr s"
    using sanitized_string [of d] by blast
  have "safePayload payload = Inr (JObj
      [(js ''titles'', JArr ts), (js ''description'', JStr s),
       (js ''tags'', JArr gs), (js ''thumbnails'', JArr hs)])"
    using eq ts(1) gs(1) hs(1) s by simp
  then show ?thesis
    using ts(2,3) gs(2,3) hs(2,3) t g h by auto
qed

lemma safePayload_fixpoint:
  assumes "length ts \<le> 5" "length gs \<le> 30" "length hs \<le> 3"
  shows "safePayload (JObj
      [(js ''titles'', JArr ts), (js ''description'', JStr d),
       (js ''tags'', JArr gs), (js ''thumbnails'', JArr hs)])
    = Inr (JObj
      [(js ''titles'', JArr ts), (js ''description'', JStr d),
       (js ''tags'', JArr gs), (js ''thumbnails'', JArr hs)])"
proof -
  have keys: "js ''description'' \<noteq> js ''titles''" "js ''tags'' \<noteq> js ''titles''"
    "js ''thumbnails'' \<noteq> js ''titles''" "js ''tags'' \<noteq> js ''description''"
    "js ''thumbnails'' \<noteq> js ''description''" "js ''thumbnails'' \<noteq> js ''tags''"
    using js_keys_distinct by simp_all
  show ?thesis
    using assms keys js_keys_distinct by (simp add: safePayload_def)
qed

text \<open>
  Claim C10. Sanitization is idempotent: sanitizing the outcome of a sanitization gives
  that outcome again, since each of its fields is already an array within its cap or a
  string (and the exception of a \<open>null\<close> payload stays that exception).
\<close>

theorem safePayload_idempotent:
  "then_safePayload (safePayload payload) = safePayload payload"
proof (cases "payload = JNull")
  case True
  then show ?thesis
    by (simp add: then_safePayload_def safePayload_null)
next
  case False
  then obtain ts d gs hs where
    eq: "safePayload payload = Inr (JObj
      [(js ''titles'', JArr ts), (js ''description'', JStr d),
       (js ''tags'', JArr gs), (js ''thumbnails'', JArr hs)])" and
    len: "length ts \<le> 5" "length gs \<le> 30" "length hs \<le> 3"
    using safePayload_shape [of payload] by blast
  show ?thesis
    using safePayload_fixpoint [OF len, of d] by (simp add: then_safePayload_def eq)
qed

text \<open>
  What the sanitization does to a field of a payload other than \<open>null\<close>: a field that
  is not an array (absent, or of any other type) becomes the empty array, a description
  that is not a string (absent, or of any other type) becomes the empty string.
\<close>

lemma safePayload_defaults:
  assumes "payload \<noteq> JNull"
  shows "\<exists>t d g h ts s gs hs.
    getProperty payload (js ''titles'') = Inr t \<and>
    getProperty payload (js ''description'') = Inr d \<and>
    getProperty payload (js ''tags'') = Inr g \<and>
    getProperty payload (js ''thumbnails'') = Inr h \<and>
    safePayload payload = Inr (JObj
      [(js ''titles'', JArr ts), (js ''description'', JStr s),
       (js ''tags'', JArr gs), (js ''thumbnails'', JArr hs)]) \<and>
    (\<not> Array_isArray t \<longrightarrow> ts = []) \<and> (\<not> typeof_string d \<longrightarrow> s = []) \<and>
    (\<not> Array_isArray g \<longrightarrow> gs = []) \<and> (\<not> Array_isArray h \<longrightarrow> hs = [])"
proof -
  obtain t d g h where
    props: "getProperty payload (js ''titles'') = Inr t"
      "getProperty payload (js ''description'') = Inr d"
      "getProperty payload (js ''tags'') = Inr g"
      "getProperty payload (js ''thumbnails'') = Inr h" and
    eq: "safePayload payload = Inr (JObj
      [(js ''titles'', if Array_isArray t then slice0 t 5 else JArr []),
       (js ''description'', if typeof_string d then string_value d else JStr []),
       (js ''tags'', if Array_isArray g then slice0 g 30 else JArr []),
       (js ''thumbnails'', if Array_isArray h then slice0 h 3 else JArr [])])"
    using safePayload_not_null [OF assms] by blast
  obtain ts where ts: "(if Array_isArray t then slice0 t 5 else JArr []) = JArr ts"
    using sanitized_array [of t 5] by blast
  obtain gs where gs: "(if Array_isArray g then slice0 g 30 else JArr []) = JArr gs"
    using sanitized_array [of g 30] by blast
  obtain hs where hs: "(if Array_isArray h then slice0 h 3 else JArr []) = JArr hs"
    using sanitized_array [of h 3] by blast
  obtain s where s: "(if typeof_string d then string_value d else JStr []) = JStr s"
    using sanitized_string [of d] by blast
  have "\<not> Array_isArray t \<longrightarrow> ts = []" "\<not> Array_isArray g \<longrightarrow> gs = []"
    "\<not> Array_isArray h \<longrightarrow> hs = []" "\<not> typeof_string d \<longrightarrow> s = []"
    using ts gs hs s by (auto split: if_splits)
  moreover have "safePayload payload = Inr (JObj
      [(js ''titles'', JArr ts), (js ''description'', JStr s),
       (js ''tags'', JArr gs), (js ''thumbnails'', JArr hs)])"
    using eq ts gs hs s by simp
  ultimately show ?thesis
    using props by blast
qed

subsection \<open>Properties of the parser\<close>

lemmas lex_defs =
  JSON_parse_def tokenize_def idle_def is_ws_def is_digit_def unescape_def hex_value_def

lemma JSON_parse_error: "JSON_parse s = Inl err \<Longrightarrow> err = SyntaxError"
  by (auto simp: JSON_parse_def split: option.splits)

lemma greedy_to_close_None: "greedy_to_close cs = None \<longleftrightarrow> 125 \<notin> set cs"
  by (induction cs) (auto split: option.splits)

lemma greedy_to_close_Some:
  "greedy_to_close cs = Some m \<Longrightarrow>
   \<exists>mid post. cs = m @ post \<and> m = mid @ [125] \<and> 125 \<notin> set post"
proof (induction cs arbitrary: m)
  case Nil
  then show ?case by simp
next
  case (Cons c cs)
  show ?case
  proof (cases "greedy_to_close cs")
    case None
    then have "125 \<notin> set cs"
      by (simp add: greedy_to_close_None)
    moreover from Cons.prems None have "c = 125" "m = [c]"
      by (auto split: if_splits)
    ultimately show ?thesis by auto
  next
    case (Some m')
    then obtain mid post where "cs = m' @ post" "m' = mid @ [125]" "125 \<notin> set post"
      using Cons.IH by blast
    moreover from Cons.prems Some have "m = c # m'" by simp
    ultimately show ?thesis
      by (metis append_Cons)
  qed
qed

lemma match_braces_None:
  "match_braces s = None \<Longrightarrow> \<not> (\<exists>pre mid post. s = pre @ [123] @ mid @ [125] @ post)"
proof (induction s)
  case Nil
  then show ?case by simp
next
  case (Cons c cs)
  show ?case
  proof
    assume "\<exists>pre mid post. c # cs = pre @ [123] @ mid @ [125] @ post"
    then obtain pre mid post where eq: "c # cs = pre @ [123] @ mid @ [125] @ post"
      by blast
    show False
    proof (cases pre)
      case Nil
      with eq have c: "c = 123" and cs: "cs = mid @ [125] @ post"
        by simp_all
      from cs have "125 \<in> set cs" by simp
      then have "greedy_to_close cs \<noteq> None"
        by (simp add: greedy_to_close_None)
      with c Cons.prems show False
        by (auto split: option.splits)
    next
      case (Cons p pre')
      with eq have "cs = pre' @ [123] @ mid @ [125] @ post" by simp
      moreover from Cons.prems have "match_braces cs = None"
        by (auto split: if_splits option.splits)
      ultimately show False
        using Cons.IH by blast
    qed
  qed
qed

lemma match_braces_Some:
  "match_braces s = Some m \<Longrightarrow>
   \<exists>pre mid post. s = pre @ m @ post \<and> m = [123] @ mid @ [125] \<and>
     123 \<notin> set pre \<and> 125 \<notin> set post"
proof (induction s)
  case Nil
  then show ?case by simp
next
  case (Cons c cs)
  show ?case
  proof (cases "c = 123 \<and> greedy_to_close cs \<noteq> None")
    case True
    then obtain m' where m': "greedy_to_close cs = Some m'" by auto
    then obtain mid post where "cs = m' @ post" "m' = mid @ [125]" "125 \<notin> set post"
      using greedy_to_close_Some by blast
    moreover from Cons.prems True m' have "m = c # m'" by simp
    ultimately have "c # cs = [] @ m @ post \<and> m = [123] @ mid @ [125] \<and>
        123 \<notin> set [] \<and> 125 \<notin> set post"
      using True by simp
    then show ?thesis by blast
  next
    case False
    with Cons.prems have "match_braces cs = Some m"
      by (auto split: if_splits option.splits)
    then obtain pre mid post where
      d: "cs = pre @ m @ post" "m = [123] @ mid @ [125]" "123 \<notin> set pre" "125 \<notin> set post"
      using Cons.IH by blast
    have "c \<noteq> 123"
    proof
      assume "c = 123"
      with False have "greedy_to_close cs = None" by simp
      then have "125 \<notin> set cs"
        by (simp add: greedy_to_close_None)
      with d(1,2) show False by simp
    qed
    with d have "c # cs = (c # pre) @ m @ post \<and> m = [123] @ mid @ [125] \<and>
        123 \<notin> set (c # pre) \<and> 125 \<notin> set post"
      by simp
    then show ?thesis by blast
  qed
qed

lemma JSON_parse_sample_text: "JSON_parse sample_text = Inl SyntaxError"
  by (simp add: sample_text_def lex_defs js_def)

lemma match_braces_sample_text:
  \<open>match_braces sample_text =
     Some (js ''{"titles":["A"],"description":"d","tags":[],"thumbnails":[]}'')\<close>
  by (simp add: sample_text_def js_def)

lemma JSON_parse_sample_object:
  \<open>JSON_parse (js ''{"titles":["A"],"description":"d","tags":[],"thumbnails":[]}'') =
     Inr (JObj
       [(js ''titles'', JArr [JStr (js ''A'')]), (js ''description'', JStr (js ''d'')),
        (js ''tags'', JArr []), (js ''thumbnails'', JArr [])])\<close>
  by (simp add: lex_defs js_def)

lemma parseJsonResponse_sample_text:
  "parseJsonResponse sample_text =
     Inr (JObj
       [(js ''titles'', JArr [JStr (js ''A'')]), (js ''description'', JStr (js ''d'')),
        (js ''tags'', JArr []), (js ''thumbnails'', JArr [])])"
  by (simp add: parseJsonResponse_def JSON_parse_sample_text match_braces_sample_text
      JSON_parse_sample_object)

text \<open>
  Claim C4. The parser first parses the whole text strictly, and the result of that
  parse is the result whenever it succeeds. If and only if it fails, the parser takes
  the first brace-delimited substring of the text, which runs from the first \<open>{\<close> (code
  unit 123) to the last \<open>}\<close> (code unit 125) of the text, and parses that; without
  such a substring the first error is thrown again. On the text
  \<open>Here is the result: {"titles":["A"],"description":"d","tags":[],"thumbnails":[]} Thanks!\<close>
  the parser returns the embedded object.
\<close>

theorem parseJsonResponse_strict_then_fallback:
  "(\<forall>v. JSON_parse text = Inr v \<longrightarrow> parseJsonResponse text = Inr v) \<and>
   (\<forall>err. JSON_parse text = Inl err \<longrightarrow>
      parseJsonResponse text =
        (case match_braces text of Some m \<Rightarrow> JSON_parse m | None \<Rightarrow> Inl err)) \<and>
   (\<forall>m. match_braces text = Some m \<longrightarrow>
      (\<exists>pre mid post. text = pre @ m @ post \<and> m = [123] @ mid @ [125] \<and>
         123 \<notin> set pre \<and> 125 \<notin> set post)) \<and>
   (match_braces text = None \<longrightarrow>
      \<not> (\<exists>pre mid post. text = pre @ [123] @ mid @ [125] @ post)) \<and>
   parseJsonResponse sample_text =
     Inr (JObj
       [(js ''titles'', JArr [JStr (js ''A'')]), (js ''description'', JStr (js ''d'')),
        (js ''tags'', JArr []), (js ''thumbnails'', JArr [])])"
proof -
  have "\<forall>v. JSON_parse text = Inr v \<longrightarrow> parseJsonResponse text = Inr v"
    by (simp add: parseJsonResponse_def)
  moreover have "\<forall>err. JSON_parse text = Inl err \<longrightarrow>
      parseJsonResponse text =
        (case match_braces text of Some m \<Rightarrow> JSON_parse m | None \<Rightarrow> Inl err)"
    by (simp add: parseJsonResponse_def)
  moreover have "\<forall>m. match_braces text = Some m \<longrightarrow>
      (\<exists>pre mid post. text = pre @ m @ post \<and> m = [123] @ mid @ [125] \<and>
         123 \<notin> set pre \<and> 125 \<notin> set post)"
    using match_braces_Some by blast
  moreover have "match_braces text = None \<longrightarrow>
      \<not> (\<exists>pre mid post. text = pre @ [123] @ mid @ [125] @ post)"
    using match_braces_None by blast
  ultimately show ?thesis
    using parseJsonResponse_sample_text by blast
qed

theorem parseJsonResponse_strict_then_fallback_witness:
  \<open>JSON_parse sample_text = Inl SyntaxError \<and>
   match_braces sample_text =
     Some (js ''{"titles":["A"],"description":"d","tags":[],"thumbnails":[]}'') \<and>
   parseJsonResponse sample_text =
     JSON_parse (js ''{"titles":["A"],"description":"d","tags":[],"thumbnails":[]}'')\<close>
  using parseJsonResponse_strict_then_fallback [of sample_text]
  by (simp add: JSON_parse_sample_text match_braces_sample_text)

subsection \<open>Properties of the handler\<close>

lemma POST_written:
  assumes "GEMINI_API_KEY e = Some k" "k \<noteq> []" "formData e = Inr fd"
    and "formData_get fd (js ''video'') = Some (FormFile v)"
    and "pipeline_result e = Written"
  shows "POST e files =
    (let p = tempPath_of (randomUUID e) v;
         steps = [WriteFile p (file_bytes v),
                  UploadFile p (if file_type v = [] then js ''video/mp4'' else file_type v)
                    (if file_name v = [] then js ''youtube-helper-video'' else file_name v),
                  Unlink p];
         files' = (if unlink_succeeds e then files - {p} else insert p files)
     in case uploadFile_result e of
          Inl err \<Rightarrow> (Threw err, steps, files')
        | Inr upload \<Rightarrow>
            (fst (generate e (context_of fd)
                    (filter Boolean (formData_getAll fd (js ''images''))) upload),
             steps @ snd (generate e (context_of fd)
                    (filter Boolean (formData_getAll fd (js ''images''))) upload),
             files'))"
  using assms
  by (simp add: POST_def upload_video_def toTempFile_def Let_def split: sum.splits prod.splits)

lemma generate_calls:
  "\<forall>x \<in> set (snd (generate e c imgs up)). \<exists>p u m parts. x = GenerateContent p u m parts"
  by (auto simp: generate_def Let_def split: sum.splits)

lemma generate_unlink:
  "generate (e\<lparr>unlink_succeeds := b\<rparr>) c imgs up = generate e c imgs up"
  by (simp add: generate_def Let_def split: sum.splits)

lemma generate_parsed:
  assumes "Promise_all (map fileToInlinePart imgs) = Inr parts"
    and "generateContent_result e = Inr text"
  shows "fst (generate e c imgs up) =
    (case parseJsonResponse text of
       Inl err \<Rightarrow> Threw err
     | Inr payload \<Rightarrow>
         (case safePayload payload of Inl err \<Rightarrow> Threw err | Inr body \<Rightarrow> Response 200 body))"
  using assms by (simp add: generate_def Let_def split: sum.splits)

lemma POST_parsed:
  assumes "GEMINI_API_KEY e = Some k" "k \<noteq> []" "formData e = Inr fd"
    and "formData_get fd (js ''video'') = Some (FormFile v)"
    and "pipeline_result e = Written"
    and "uploadFile_result e = Inr up"
    and "Promise_all (map fileToInlinePart
           (filter Boolean (formData_getAll fd (js ''images'')))) = Inr parts"
    and "generateContent_result e = Inr text"
  shows "fst (POST e files) =
    (case parseJsonResponse text of
       Inl err \<Rightarrow> Threw err
     | Inr payload \<Rightarrow>
         (case safePayload payload of Inl err \<Rightarrow> Threw err | Inr body \<Rightarrow> Response 200 body))"
proof -
  have "fst (POST e files) =
      fst (generate e (context_of fd) (filter Boolean (formData_getAll fd (js ''images''))) up)"
    using POST_written [OF assms(1-5), of files] assms(6) by (simp add: Let_def)
  then show ?thesis
    using generate_parsed [OF assms(7,8)] by simp
qed

lemma sample_env_fields:
  "GEMINI_API_KEY sample_env = Some (js ''secret'')" "js ''secret'' \<noteq> []"
  "formData sample_env = Inr sample_form"
  "formData_get sample_form (js ''video'') = Some (FormFile sample_video)"
  "pipeline_result sample_env = Written"
  "uploadFile_result sample_env = Inr (js ''https://files/1'', js ''video/mp4'')"
  "Promise_all (map fileToInlinePart
     (filter Boolean (formData_getAll sample_form (js ''images'')))) = Inr []"
  "generateContent_result sample_env = Inr sample_text"
  "randomUUID sample_env = js ''0a1b''"
  by (simp_all add: sample_env_def sample_form_def formData_get_def formData_getAll_def js_def)

lemma sample_tempPath:
  "tempPath_of (js ''0a1b'') sample_video = js ''/tmp/yt-helper-0a1b-my_clip.mp4''"
  by (simp add: tempPath_of_def sample_video_def js_def is_safe_char_def)

lemma parseJsonResponse_null: "parseJsonResponse (js ''null'') = Inr JNull"
  by (simp add: parseJsonResponse_def lex_defs js_def)

text \<open>
  Claim C3 holds for every payload but \<open>null\<close> (lemma \<open>safePayload_defaults\<close>). When
  the model answers \<open>null\<close>, the text parses to the payload \<open>null\<close>, the read of its
  \<open>titles\<close> throws a \<open>TypeError\<close>, and the handler ends with that exception in place of
  a sanitized result with empty fields.
\<close>

theorem null_payload_throws:
  "parseJsonResponse (js ''null'') = Inr JNull \<and>
   getProperty JNull (js ''titles'') = Inl TypeError \<and>
   safePayload JNull = Inl TypeError \<and>
   fst (POST (sample_env\<lparr>generateContent_result := Inr (js ''null'')\<rparr>) {}) = Threw TypeError"
proof -
  let ?e = "sample_env\<lparr>generateContent_result := Inr (js ''null'')\<rparr>"
  have "fst (POST ?e {}) =
    (case parseJsonResponse (js ''null'') of
       Inl err \<Rightarrow> Threw err
     | Inr payload \<Rightarrow>
         (case safePayload payload of Inl err \<Rightarrow> Threw err | Inr body \<Rightarrow> Response 200 body))"
    by (rule POST_parsed [where k = "js ''secret''" and fd = sample_form and v = sample_video
          and up = "(js ''https://files/1'', js ''video/mp4'')" and parts = "[]"])
       (simp_all add: sample_env_fields)
  then show ?thesis
    by (simp add: parseJsonResponse_null safePayload_null)
qed

text \<open>
  Claim C5. When the strict parse of the response text fails and the fallback fails
  too (there is no brace-delimited substring, or parsing it fails), the parser returns
  no value: it throws a \<open>SyntaxError\<close>. A handler that has come as far as parsing that
  text ends with this exception, uncaught, and not with a response that carries a
  sanitized payload.
\<close>

theorem parseJsonResponse_failure_propagates:
  assumes "JSON_parse text = Inl err"
    and "match_braces text = None \<or>
         (\<exists>m err'. match_braces text = Some m \<and> JSON_parse m = Inl err')"
  shows "parseJsonResponse text = Inl SyntaxError \<and>
    (GEMINI_API_KEY e = Some k \<and> k \<noteq> [] \<and> formData e = Inr fd \<and>
     formData_get fd (js ''video'') = Some (FormFile v) \<and>
     pipeline_result e = Written \<and> uploadFile_result e = Inr up \<and>
     Promise_all (map fileToInlinePart
       (filter Boolean (formData_getAll fd (js ''images'')))) = Inr parts \<and>
     generateContent_result e = Inr text
     \<longrightarrow> fst (POST e files) = Threw SyntaxError \<and> status_seen (fst (POST e files)) = 500)"
proof -
  have err: "err = SyntaxError"
    using assms(1) by (rule JSON_parse_error)
  have parse: "parseJsonResponse text = Inl SyntaxError"
    using assms(2)
  proof
    assume "match_braces text = None"
    then show ?thesis
      using assms(1) err by (simp add: parseJsonResponse_def)
  next
    assume "\<exists>m err'. match_braces text = Some m \<and> JSON_parse m = Inl err'"
    then obtain m err' where m: "match_braces text = Some m" "JSON_parse m = Inl err'"
      by blast
    then have "err' = SyntaxError"
      using JSON_parse_error by blast
    then show ?thesis
      using assms(1) m by (simp add: parseJsonResponse_def)
  qed
  have "fst (POST e files) = Threw SyntaxError"
    if "GEMINI_API_KEY e = Some k" "k \<noteq> []" "formData e = Inr fd"
      "formData_get fd (js ''video'') = Some (FormFile v)"
      "pipeline_result e = Written" "uploadFile_result e = Inr up"
      "Promise_all (map fileToInlinePart
         (filter Boolean (formData_getAll fd (js ''images'')))) = Inr parts"
      "generateContent_result e = Inr text"
    using POST_parsed [OF that, of files] parse by simp
  then show ?thesis
    using parse by auto
qed

theorem parseJsonResponse_failure_propagates_witness:
  "parseJsonResponse (js ''Sorry, no.'') = Inl SyntaxError \<and>
   fst (POST (sample_env\<lparr>generateContent_result := Inr (js ''Sorry, no.'')\<rparr>) {})
     = Threw SyntaxError \<and>
   status_seen (fst (POST (sample_env\<lparr>generateContent_result := Inr (js ''Sorry, no.'')\<rparr>) {}))
     = 500 \<and>
   parseJsonResponse (js ''{oops}'') = Inl SyntaxError"
proof -
  have 1: "JSON_parse (js ''Sorry, no.'') = Inl SyntaxError"
    by (simp add: lex_defs js_def)
  have 2: "match_braces (js ''Sorry, no.'') = None"
    by (simp add: js_def)
  have 3: "JSON_parse (js ''{oops}'') = Inl SyntaxError"
    by (simp add: lex_defs js_def)
  have 4: "match_braces (js ''{oops}'') = Some (js ''{oops}'')"
    by (simp add: js_def)
  show ?thesis
    using parseJsonResponse_failure_propagates
      [of "js ''Sorry, no.''" SyntaxError
        "sample_env\<lparr>generateContent_result := Inr (js ''Sorry, no.'')\<rparr>"
        "js ''secret''" sample_form sample_video "(js ''https://files/1'', js ''video/mp4'')"
        "[]" "{}"]
      parseJsonResponse_failure_propagates [of "js ''{oops}''" SyntaxError]
      1 2 3 4
    by (simp add: sample_env_fields)
qed

text \<open>
  Claim C6. Without a configured credential (the variable is unset or empty) the
  handler answers at once with status 500 and an error message, whatever the request
  holds: nothing is written, uploaded, deleted or generated, and the scratch directory
  is as it was.
\<close>

theorem POST_missing_credential:
  assumes "GEMINI_API_KEY e = None \<or> GEMINI_API_KEY e = Some []"
  shows "POST e files =
    (Response 500
       (JObj [(js ''error'', JStr (js ''Missing GEMINI_API_KEY environment variable.''))]),
     [], files)"
  using assms by (auto simp: POST_def)

theorem POST_missing_credential_witness:
  "POST (sample_env\<lparr>GEMINI_API_KEY := None\<rparr>) {} =
    (Response 500
       (JObj [(js ''error'', JStr (js ''Missing GEMINI_API_KEY environment variable.''))]),
     [], {})"
  using POST_missing_credential [of "sample_env\<lparr>GEMINI_API_KEY := None\<rparr>" "{}"]
  by simp

text \<open>
  Claim C7. With the credential configured, a form without a \<open>video\<close> entry, or whose
  \<open>video\<close> entry is a string and not a file, is answered with status 400 and an error
  message: no temporary file is touched and no outbound call is made.
\<close>

theorem POST_missing_video:
  assumes "GEMINI_API_KEY e = Some k" "k \<noteq> []" "formData e = Inr fd"
    and "formData_get fd (js ''video'') = None \<or>
         (\<exists>s. formData_get fd (js ''video'') = Some (FormString s))"
  shows "POST e files =
    (Response 400 (JObj [(js ''error'', JStr (js ''Video file is required.''))]), [], files)"
  using assms by (auto simp: POST_def Let_def)

theorem POST_missing_video_witness:
  "POST (sample_env\<lparr>formData := Inr [(js ''context'', FormString (js ''hi''))]\<rparr>) {} =
     (Response 400 (JObj [(js ''error'', JStr (js ''Video file is required.''))]), [], {}) \<and>
   POST (sample_env\<lparr>formData := Inr [(js ''video'', FormString (js ''clip.mp4''))]\<rparr>) {} =
     (Response 400 (JObj [(js ''error'', JStr (js ''Video file is required.''))]), [], {})"
  using POST_missing_video
      [of "sample_env\<lparr>formData := Inr [(js ''context'', FormString (js ''hi''))]\<rparr>"
        "js ''secret''" "[(js ''context'', FormString (js ''hi''))]" "{}"]
    POST_missing_video
      [of "sample_env\<lparr>formData := Inr [(js ''video'', FormString (js ''clip.mp4''))]\<rparr>"
        "js ''secret''" "[(js ''video'', FormString (js ''clip.mp4''))]" "{}"]
  by (simp add: sample_env_fields formData_get_def js_def)

text \<open>
  Claim C1 asks that the result returned to the client is of the declared type
  \<open>AnalysisPayload\<close> whatever the model answered: four fields, the three sequences
  holding strings only. The handler tests each field with \<open>Array.isArray\<close> and
  \<open>typeof\<close> and never looks at the elements of an array: when the model answers
  \<open>{"titles":[1]}\<close> it responds with status 200 and a result whose \<open>titles\<close> holds
  that number, which is not an \<open>AnalysisPayload\<close>.
\<close>

theorem POST_returns_non_string_elements:
  \<open>fst (POST (sample_env\<lparr>generateContent_result := Inr (js ''{"titles":[1]}'')\<rparr>) {}) =
     Response 200 (JObj
        [(js ''titles'', JArr [JNum (js ''1'')]), (js ''description'', JStr []),
         (js ''tags'', JArr []), (js ''thumbnails'', JArr [])]) \<and>
   \<not> AnalysisPayload (JObj
        [(js ''titles'', JArr [JNum (js ''1'')]), (js ''description'', JStr []),
         (js ''tags'', JArr []), (js ''thumbnails'', JArr [])])\<close>
proof -
  let ?e = \<open>sample_env\<lparr>generateContent_result := Inr (js ''{"titles":[1]}'')\<rparr>\<close>
  have parsed: \<open>parseJsonResponse (js ''{"titles":[1]}'') =
      Inr (JObj [(js ''titles'', JArr [JNum (js ''1'')])])\<close>
    by (simp add: parseJsonResponse_def lex_defs js_def)
  have safe: "safePayload (JObj [(js ''titles'', JArr [JNum (js ''1'')])]) =
      Inr (JObj
        [(js ''titles'', JArr [JNum (js ''1'')]), (js ''description'', JStr []),
         (js ''tags'', JArr []), (js ''thumbnails'', JArr [])])"
    by (simp add: safePayload_def js_def)
  have \<open>fst (POST ?e {}) =
    (case parseJsonResponse (js ''{"titles":[1]}'') of
       Inl err \<Rightarrow> Threw err
     | Inr payload \<Rightarrow>
         (case safePayload payload of Inl err \<Rightarrow> Threw err | Inr body \<Rightarrow> Response 200 body))\<close>
    by (rule POST_parsed [where k = "js ''secret''" and fd = sample_form and v = sample_video
          and up = "(js ''https://files/1'', js ''video/mp4'')" and parts = "[]"])
       (simp_all add: sample_env_fields)
  then have "fst (POST ?e {}) =
     Response 200 (JObj
        [(js ''titles'', JArr [JNum (js ''1'')]), (js ''description'', JStr []),
         (js ''tags'', JArr []), (js ''thumbnails'', JArr [])])"
    by (simp add: parsed safe)
  moreover have "\<not> AnalysisPayload (JObj
        [(js ''titles'', JArr [JNum (js ''1'')]), (js ''description'', JStr []),
         (js ''tags'', JArr []), (js ''thumbnails'', JArr [])])"
    by (simp add: js_def)
  ultimately show ?thesis by simp
qed

text \<open>
  Claim C8, as stated, fails where the deletion itself fails: the failure is swallowed
  and the handler answers as if nothing had happened, but the file it could not delete
  is still in the scratch directory.
\<close>

theorem temp_file_remains_when_unlink_fails:
  "fst (POST (sample_env\<lparr>unlink_succeeds := False\<rparr>) {}) =
     Response 200 (JObj
       [(js ''titles'', JArr [JStr (js ''A'')]), (js ''description'', JStr (js ''d'')),
        (js ''tags'', JArr []), (js ''thumbnails'', JArr [])]) \<and>
   Unlink (js ''/tmp/yt-helper-0a1b-my_clip.mp4'')
     \<in> set (fst (snd (POST (sample_env\<lparr>unlink_succeeds := False\<rparr>) {}))) \<and>
   js ''/tmp/yt-helper-0a1b-my_clip.mp4''
     \<in> snd (snd (POST (sample_env\<lparr>unlink_succeeds := False\<rparr>) {}))"
proof -
  let ?e = "sample_env\<lparr>unlink_succeeds := False\<rparr>"
  have "fst (POST ?e {}) =
    (case parseJsonResponse sample_text of
       Inl err \<Rightarrow> Threw err
     | Inr payload \<Rightarrow>
         (case safePayload payload of Inl err \<Rightarrow> Threw err | Inr body \<Rightarrow> Response 200 body))"
    by (rule POST_parsed [where k = "js ''secret''" and fd = sample_form and v = sample_video
          and up = "(js ''https://files/1'', js ''video/mp4'')" and parts = "[]"])
       (simp_all add: sample_env_fields)
  moreover have "safePayload (JObj
       [(js ''titles'', JArr [JStr (js ''A'')]), (js ''description'', JStr (js ''d'')),
        (js ''tags'', JArr []), (js ''thumbnails'', JArr [])]) =
     Inr (JObj
       [(js ''titles'', JArr [JStr (js ''A'')]), (js ''description'', JStr (js ''d'')),
        (js ''tags'', JArr []), (js ''thumbnails'', JArr [])])"
    by (rule safePayload_fixpoint) simp_all
  ultimately have outcome: "fst (POST ?e {}) =
     Response 200 (JObj
       [(js ''titles'', JArr [JStr (js ''A'')]), (js ''description'', JStr (js ''d'')),
        (js ''tags'', JArr []), (js ''thumbnails'', JArr [])])"
    by (simp add: parseJsonResponse_sample_text)
  have "POST ?e {} =
    (let p = tempPath_of (randomUUID ?e) sample_video;
         steps = [WriteFile p (file_bytes sample_video),
                  UploadFile p
                    (if file_type sample_video = [] then js ''video/mp4''
                     else file_type sample_video)
                    (if file_name sample_video = [] then js ''youtube-helper-video''
                     else file_name sample_video),
                  Unlink p];
         files' = (if unlink_succeeds ?e then {} - {p} else insert p {})
     in case uploadFile_result ?e of
          Inl err \<Rightarrow> (Threw err, steps, files')
        | Inr upload \<Rightarrow>
            (fst (generate ?e (context_of sample_form)
                    (filter Boolean (formData_getAll sample_form (js ''images''))) upload),
             steps @ snd (generate ?e (context_of sample_form)
                    (filter Boolean (formData_getAll sample_form (js ''images''))) upload),
             files'))"
    by (rule POST_written [where k = "js ''secret''"]) (simp_all add: sample_env_fields)
  then have "Unlink (js ''/tmp/yt-helper-0a1b-my_clip.mp4'') \<in> set (fst (snd (POST ?e {})))"
    and "js ''/tmp/yt-helper-0a1b-my_clip.mp4'' \<in> snd (snd (POST ?e {}))"
    by (simp_all add: Let_def sample_env_fields sample_tempPath)
  with outcome show ?thesis by simp
qed

text \<open>
  Claim C8, amended. Once the uploaded video is written to its temporary file, the
  handler writes, uploads and then deletes that one path, in this order, whether the
  upload returns or throws; nothing but the call of the model follows. A failure of the
  deletion is swallowed: it changes neither the outcome of the handler nor what the
  handler does. When the deletion succeeds, no file of the generated name remains in the
  scratch directory (when it fails, the file stays).
\<close>

theorem temp_file_unlinked_after_upload:
  assumes "GEMINI_API_KEY e = Some k" "k \<noteq> []" "formData e = Inr fd"
    and "formData_get fd (js ''video'') = Some (FormFile v)"
    and "pipeline_result e = Written"
    and "p = tempPath_of (randomUUID e) v"
  shows "(\<exists>mime display rest.
      fst (snd (POST e files)) =
        [WriteFile p (file_bytes v), UploadFile p mime display, Unlink p] @ rest \<and>
      (\<forall>x \<in> set rest. \<exists>q u m parts. x = GenerateContent q u m parts)) \<and>
    fst (POST (e\<lparr>unlink_succeeds := b\<rparr>) files) = fst (POST e files) \<and>
    fst (snd (POST (e\<lparr>unlink_succeeds := b\<rparr>) files)) = fst (snd (POST e files)) \<and>
    (unlink_succeeds e \<longrightarrow> p \<notin> snd (snd (POST e files))) \<and>
    (\<not> unlink_succeeds e \<longrightarrow> p \<in> snd (snd (POST e files)))"
proof -
  let ?steps = "[WriteFile p (file_bytes v),
      UploadFile p (if file_type v = [] then js ''video/mp4'' else file_type v)
        (if file_name v = [] then js ''youtube-helper-video'' else file_name v),
      Unlink p]"
  let ?imgs = "filter Boolean (formData_getAll fd (js ''images''))"
  have run: "POST e files =
    (case uploadFile_result e of
       Inl err \<Rightarrow> (Threw err, ?steps, if unlink_succeeds e then files - {p} else insert p files)
     | Inr upload \<Rightarrow>
         (fst (generate e (context_of fd) ?imgs upload),
          ?steps @ snd (generate e (context_of fd) ?imgs upload),
          if unlink_succeeds e then files - {p} else insert p files))"
    unfolding assms(6) using POST_written [OF assms(1-5), of files] by (simp add: Let_def)
  have run': "POST (e\<lparr>unlink_succeeds := b\<rparr>) files =
    (case uploadFile_result e of
       Inl err \<Rightarrow> (Threw err, ?steps, if b then files - {p} else insert p files)
     | Inr upload \<Rightarrow>
         (fst (generate e (context_of fd) ?imgs upload),
          ?steps @ snd (generate e (context_of fd) ?imgs upload),
          if b then files - {p} else insert p files))"
    unfolding assms(6)
    using POST_written [of "e\<lparr>unlink_succeeds := b\<rparr>" k fd v files] assms(1-5)
    by (simp add: Let_def generate_unlink split: sum.splits)
  have order: "\<exists>mime display rest.
      fst (snd (POST e files)) =
        [WriteFile p (file_bytes v), UploadFile p mime display, Unlink p] @ rest \<and>
      (\<forall>x \<in> set rest. \<exists>q u m parts. x = GenerateContent q u m parts)"
  proof (cases "uploadFile_result e")
    case (Inl err)
    then have "fst (snd (POST e files)) = ?steps @ []"
      using run by simp
    then show ?thesis by fastforce
  next
    case (Inr upload)
    then have "fst (snd (POST e files)) =
        ?steps @ snd (generate e (context_of fd) ?imgs upload)"
      using run by simp
    then show ?thesis
      using generate_calls [of e "context_of fd" ?imgs upload] by blast
  qed
  have same: "fst (POST (e\<lparr>unlink_succeeds := b\<rparr>) files) = fst (POST e files)"
    "fst (snd (POST (e\<lparr>unlink_succeeds := b\<rparr>) files)) = fst (snd (POST e files))"
    using run run' by (simp_all split: sum.splits)
  have files: "unlink_succeeds e \<longrightarrow> p \<notin> snd (snd (POST e files))"
    "\<not> unlink_succeeds e \<longrightarrow> p \<in> snd (snd (POST e files))"
    using run by (simp_all split: sum.splits)
  show ?thesis
    using order same files by blast
qed

theorem temp_file_unlinked_after_upload_witness:
  "fst (snd (POST (sample_env\<lparr>uploadFile_result := Inl UploadError\<rparr>) {})) =
     [WriteFile (js ''/tmp/yt-helper-0a1b-my_clip.mp4'') [0, 1, 2],
      UploadFile (js ''/tmp/yt-helper-0a1b-my_clip.mp4'') (js ''video/mp4'')
        (js ''my clip.mp4''),
      Unlink (js ''/tmp/yt-helper-0a1b-my_clip.mp4'')] \<and>
   fst (POST (sample_env\<lparr>uploadFile_result := Inl UploadError\<rparr>) {}) = Threw UploadError \<and>
   js ''/tmp/yt-helper-0a1b-my_clip.mp4''
     \<notin> snd (snd (POST (sample_env\<lparr>uploadFile_result := Inl UploadError\<rparr>) {}))"
proof -
  let ?e = "sample_env\<lparr>uploadFile_result := Inl UploadError\<rparr>"
  have run: "POST ?e {} =
    (let p = tempPath_of (randomUUID ?e) sample_video;
         steps = [WriteFile p (file_bytes sample_video),
                  UploadFile p
                    (if file_type sample_video = [] then js ''video/mp4''
                     else file_type sample_video)
                    (if file_name sample_video = [] then js ''youtube-helper-video''
                     else file_name sample_video),
                  Unlink p];
         files' = (if unlink_succeeds ?e then {} - {p} else insert p {})
     in case uploadFile_result ?e of
          Inl err \<Rightarrow> (Threw err, steps, files')
        | Inr upload \<Rightarrow>
            (fst (generate ?e (context_of sample_form)
                    (filter Boolean (formData_getAll sample_form (js ''images''))) upload),
             steps @ snd (generate ?e (context_of sample_form)
                    (filter Boolean (formData_getAll sample_form (js ''images''))) upload),
             files'))"
    by (rule POST_written [where k = "js ''secret''"]) (simp_all add: sample_env_fields)
  have fields: "file_bytes sample_video = [0, 1, 2]" "file_type sample_video = js ''video/mp4''"
    "file_name sample_video = js ''my clip.mp4''" "unlink_succeeds sample_env"
    by (simp_all add: sample_video_def sample_env_def)
  have nonempty: "js ''video/mp4'' \<noteq> []" "js ''my clip.mp4'' \<noteq> []"
    by (simp_all add: js_def)
  have "unlink_succeeds ?e \<longrightarrow>
      js ''/tmp/yt-helper-0a1b-my_clip.mp4'' \<notin> snd (snd (POST ?e {}))"
    using temp_file_unlinked_after_upload
      [of ?e "js ''secret''" sample_form sample_video
        "js ''/tmp/yt-helper-0a1b-my_clip.mp4''" "{}" True]
    by (simp add: sample_env_fields sample_tempPath)
  then show ?thesis
    using run fields nonempty by (simp add: Let_def sample_env_fields sample_tempPath)
qed

subsection \<open>Properties of the prompt\<close>

lemma prompt_text:
  "prompt c =
     tl prompt_head @ (if c = [] then js ''None provided.'' else c) @ [10, 10] @
     js ''Return only valid JSON with keys: titles, description, tags, thumbnails.''"
proof -
  let ?x = "if c = [] then js ''None provided.'' else c"
  have 1: "dropWhile is_trim_space (prompt_head @ ?x @ prompt_tail) =
      tl prompt_head @ ?x @ prompt_tail"
    by (simp add: prompt_head_def js_def is_trim_space_def)
  have 2: "rev (tl prompt_head @ ?x @ prompt_tail) =
      rev prompt_tail @ rev ?x @ rev (tl prompt_head)"
    by simp
  have 3: "dropWhile is_trim_space (rev prompt_tail @ ys) =
      rev ([10, 10] @
        js ''Return only valid JSON with keys: titles, description, tags, thumbnails.'') @ ys"
    for ys
    by (simp add: prompt_tail_def js_def is_trim_space_def)
  show ?thesis
    unfolding prompt_def trim_def 1 2 3 by simp
qed

lemma trim_Nil: "trim [] = []"
  by (simp add: trim_def)

text \<open>
  Claim C9, as stated, fails: a context that holds only white space (here one tab, code
  unit 9) is neither absent nor empty, yet the prompt holds the placeholder and not the
  supplied text.
\<close>

theorem prompt_blank_context_gets_placeholder:
  "String_or_empty (formData_get [(js ''context'', FormString [9])] (js ''context'')) = [9] \<and>
   prompt (context_of [(js ''context'', FormString [9])]) =
     tl prompt_head @ js ''None provided.'' @ [10, 10] @
     js ''Return only valid JSON with keys: titles, description, tags, thumbnails.'' \<and>
   9 \<notin> set (prompt (context_of [(js ''context'', FormString [9])]))"
proof -
  have get: "formData_get [(js ''context'', FormString [9])] (js ''context'')
      = Some (FormString [9])"
    by (simp add: formData_get_def)
  then have ctx: "context_of [(js ''context'', FormString [9])] = []"
    by (simp add: context_of_def trim_def is_trim_space_def)
  have "9 \<notin> set (tl prompt_head @ js ''None provided.'' @ [10, 10] @
     js ''Return only valid JSON with keys: titles, description, tags, thumbnails.'')"
    by (simp add: prompt_head_def js_def)
  then show ?thesis
    using get ctx by (simp add: prompt_text)
qed

text \<open>
  Claim C9, amended. The context is the \<open>context\<close> entry of the form, taken as a string
  (empty when the entry is absent) and trimmed of white space at both ends. The prompt
  is the fixed instructional text with that trimmed context in it; when the trimmed
  context is empty, which it is for an absent, an empty and an all-blank entry, the
  prompt holds \<open>None provided.\<close> in its place.
\<close>

theorem prompt_interpolates_trimmed_context:
  "context_of fd = trim (String_or_empty (formData_get fd (js ''context''))) \<and>
   prompt (context_of fd) =
     tl prompt_head @
     (if context_of fd = [] then js ''None provided.'' else context_of fd) @
     [10, 10] @
     js ''Return only valid JSON with keys: titles, description, tags, thumbnails.'' \<and>
   (formData_get fd (js ''context'') = None \<longrightarrow> context_of fd = []) \<and>
   (formData_get fd (js ''context'') = Some (FormString []) \<longrightarrow> context_of fd = [])"
  by (simp add: prompt_text context_of_def trim_Nil)

theorem prompt_interpolates_trimmed_context_witness:
  "context_of sample_form = js ''cooking'' \<and>
   prompt (context_of sample_form) =
     tl prompt_head @ js ''cooking'' @ [10, 10] @
     js ''Return only valid JSON with keys: titles, description, tags, thumbnails.'' \<and>
   prompt (context_of [(js ''video'', FormFile sample_video)]) =
     tl prompt_head @ js ''None provided.'' @ [10, 10] @
     js ''Return only valid JSON with keys: titles, description, tags, thumbnails.''"
proof -
  have 1: "context_of sample_form = js ''cooking''"
    by (simp add: context_of_def sample_form_def formData_get_def js_def trim_def
        is_trim_space_def)
  have 2: "formData_get [(js ''video'', FormFile sample_video)] (js ''context'') = None"
    by (simp add: formData_get_def js_def)
  have 3: "js ''cooking'' \<noteq> []"
    by (simp add: js_def)
  have a: "prompt (context_of sample_form) =
     tl prompt_head @
     (if context_of sample_form = [] then js ''None provided.'' else context_of sample_form) @
     [10, 10] @
     js ''Return only valid JSON with keys: titles, description, tags, thumbnails.''"
    using prompt_interpolates_trimmed_context [of sample_form] by blast
  have b: "context_of [(js ''video'', FormFile sample_video)] = []"
    using prompt_interpolates_trimmed_context [of "[(js ''video'', FormFile sample_video)]"] 2
    by blast
  have c: "prompt (context_of [(js ''video'', FormFile sample_video)]) =
     tl prompt_head @
     (if context_of [(js ''video'', FormFile sample_video)] = [] then js ''None provided.''
      else context_of [(js ''video'', FormFile sample_video)]) @
     [10, 10] @
     js ''Return only valid JSON with keys: titles, description, tags, thumbnails.''"
    using prompt_interpolates_trimmed_context [of "[(js ''video'', FormFile sample_video)]"]
    by blast
  show ?thesis
    using a c 1 3 b by simp
qed

end
